theory Spec2Isabelle
  imports Main
begin

section \<open>Errors, process exit and byte strings\<close>

text \<open>
  Go byte slices and strings are modelled as \<open>string\<close> (a list of bytes). A Go
  \<open>error\<close> value is a message. \<open>log.Fatal(err)\<close> prints the error and exits the
  process: a function that can reach it returns an \<open>outcome\<close>, whose \<open>Fatal\<close> value
  stands for the terminated process.
\<close>

type_synonym bytes = string

datatype error = Error string

datatype 'a outcome = Fatal error | Returned 'a

section \<open>The storage collaborator\<close>

text \<open>
  Modelled from the spec: \<open>util.Storage\<close> is not under src/. The persistence boundary is
  \<open>get(key) -> bytes|absent\<close> and \<open>set(key, bytes)\<close>; both can fail. The model is a
  key-value map, a flag for each way of failing, and the log of the \<open>Set\<close> calls that
  reached the storage, so that "without writing" can be stated.
\<close>

record storage =
  entries :: "string \<rightharpoonup> bytes"
  unreadable :: bool
  read_only :: bool
  written :: "(string \<times> bytes) list"

text \<open>\<open>Get\<close> returns the Go pair \<open>(value, err)\<close>; a missing key is an error.\<close>

definition storage_Get :: "storage \<Rightarrow> string \<Rightarrow> bytes \<times> error option" where
  "storage_Get st key =
     (if unreadable st then ([], Some (Error ''read failed''))
      else case entries st key of
             None \<Rightarrow> ([], Some (Error ''no such key''))
           | Some v \<Rightarrow> (v, None))"

definition storage_Set :: "storage \<Rightarrow> string \<Rightarrow> bytes \<Rightarrow> error option \<times> storage" where
  "storage_Set st key v =
     (if read_only st then (Some (Error ''write failed''), st)
      else (None, st\<lparr>entries := (entries st)(key \<mapsto> v),
                       written := written st @ [(key, v)]\<rparr>))"

section \<open>The accessory identifier\<close>

text \<open>
  \<open>transportUUIDInStorage\<close> (hap/ip_transport.go). \<open>netio.MAC48Address\<close> is not under
  src/ and is the parameter \<open>MAC48Address\<close>; \<open>rnd\<close> is the string that
  \<open>util.RandomHexString()\<close> draws when it is called.
\<close>

definition transportUUIDInStorage ::
  "(string \<Rightarrow> string) \<Rightarrow> string \<Rightarrow> storage \<Rightarrow> (string \<times> storage) outcome" where
  "transportUUIDInStorage MAC48Address rnd storage =
     (let (uuid, err) = storage_Get storage ''uuid'' in
      if length uuid = 0 \<or> err \<noteq> None then
        (let str = rnd;
             uuid = MAC48Address str;
             (err, storage') = storage_Set storage ''uuid'' uuid
         in case err of
              Some e \<Rightarrow> Fatal e
            | None \<Rightarrow> Returned (uuid, storage'))
      else Returned (uuid, storage))"

text \<open>Two calls in a row on the same storage, each with its own random draw.\<close>

definition uuid_twice ::
  "(string \<Rightarrow> string) \<Rightarrow> string \<Rightarrow> string \<Rightarrow> storage \<Rightarrow> (string \<times> string \<times> storage) outcome" where
  "uuid_twice MAC48Address rnd1 rnd2 storage =
     (case transportUUIDInStorage MAC48Address rnd1 storage of
        Fatal e \<Rightarrow> Fatal e
      | Returned (u1, st1) \<Rightarrow>
          (case transportUUIDInStorage MAC48Address rnd2 st1 of
             Fatal e \<Rightarrow> Fatal e
           | Returned (u2, st2) \<Rightarrow> Returned (u1, u2, st2)))"

text \<open>
  The shape of an identifier: six groups of two upper-case hexadecimal digits, separated
  by colons.
\<close>

definition is_hex_digit :: "char \<Rightarrow> bool" where
  "is_hex_digit ch = (ch \<in> set ''0123456789ABCDEF'')"

fun hex_groups :: "nat \<Rightarrow> string \<Rightarrow> bool" where
  "hex_groups n (a # b # rest) =
     (is_hex_digit a \<and> is_hex_digit b \<and>
      (case rest of
         [] \<Rightarrow> n = 1
       | c # rest' \<Rightarrow> c = CHR '':'' \<and> 1 < n \<and> hex_groups (n - 1) rest'))"
| "hex_groups n _ = False"

definition is_MAC48 :: "string \<Rightarrow> bool" where
  "is_MAC48 s = hex_groups 6 s"

section \<open>The database and the pairing state\<close>

text \<open>
  Modelled from the spec: \<open>db.Database\<close> is not under src/. \<open>isPaired\<close> only calls
  \<open>Entities()\<close>, which returns every stored entity or an error. The model is the list of
  stored entities and the error, if any, that reading them gives. Storing a record adds it
  unless it is there already; deleting a record removes it.
\<close>

record 'e database =
  entities :: "'e list"
  read_error :: "error option"

definition Entities :: "'e database \<Rightarrow> 'e list \<times> error option" where
  "Entities db = (case read_error db of None \<Rightarrow> (entities db, None) | Some e \<Rightarrow> ([], Some e))"

definition SaveEntity :: "'e \<Rightarrow> 'e database \<Rightarrow> 'e database" where
  "SaveEntity e db = (if e \<in> set (entities db) then db else db\<lparr>entities := entities db @ [e]\<rparr>)"

definition DeleteEntity :: "'e \<Rightarrow> 'e database \<Rightarrow> 'e database" where
  "DeleteEntity e db = db\<lparr>entities := removeAll e (entities db)\<rparr>"

section \<open>The mDNS service\<close>

text \<open>
  Modelled from the spec: \<open>MDNSService\<close> is not under src/. It holds the boolean
  reachable flag; \<open>Publish\<close> and \<open>Update\<close> announce the current flag, kept in
  \<open>announced\<close> (\<open>None\<close> before the first announcement).
\<close>

record MDNSService =
  reachable :: bool
  announced :: "bool option"

definition SetReachable :: "bool \<Rightarrow> MDNSService \<Rightarrow> MDNSService" where
  "SetReachable r m = m\<lparr>reachable := r\<rparr>"

definition Update :: "MDNSService \<Rightarrow> MDNSService" where
  "Update m = m\<lparr>announced := Some (reachable m)\<rparr>"

definition Publish :: "MDNSService \<Rightarrow> MDNSService" where
  "Publish m = m\<lparr>announced := Some (reachable m)\<rparr>"

section \<open>Accessories, connections and sessions\<close>

text \<open>
  Of a characteristic the transport reads the \<open>Events\<close> flag; \<open>ID\<close> is its identifier.
  An accessory has a name (\<open>a.Info.Name.GetValue()\<close>) and services, each with
  characteristics.
\<close>

record characteristic =
  ID :: int
  Events :: bool

record service =
  Characteristics :: "characteristic list"

record accessory =
  Info_Name :: string
  Services :: "service list"

text \<open>A \<open>net.Conn\<close> is compared by identity: a connection is its number.\<close>

type_synonym conn = nat

section \<open>The transport\<close>

record Config =
  StoragePath :: string
  Port :: string
  AdvertisedPort :: string
  IP :: string
  AdvertisedIP :: string
  Hostname :: string
  Pin :: string

text \<open>
  The fields of the transport that the functions below read or write. \<open>active\<close> is what
  \<open>t.context.ActiveConnections()\<close> returns; the mutex, the server and the emitter are
  left out.
\<close>

record ('e, 'dev) ipTransport =
  config :: Config
  database :: "'e database"
  mdns :: "MDNSService option"
  name :: string
  device :: 'dev
  container :: "accessory list"
  active :: "conn list"

text \<open>
  \<open>getFirstLocalIPAddr\<close>. Of a \<open>net.IP\<close> the function looks at \<open>IsLoopback()\<close> and at
  \<open>To4()\<close>, which is \<open>nil\<close> (\<open>None\<close>) or the IPv4 form, kept here as the string that
  \<open>ip.String()\<close> prints. An address is a \<open>*net.IPNet\<close>, a \<open>*net.IPAddr\<close> or of another
  type; its \<open>IP\<close> may be \<open>nil\<close>. The argument is the result of \<open>net.InterfaceAddrs()\<close>.
\<close>

record net_IP =
  IsLoopback :: bool
  To4 :: "string option"

datatype addr = IPNet "net_IP option" | IPAddr "net_IP option" | OtherAddr

fun first_local_ip :: "addr list \<Rightarrow> error + string" where
  "first_local_ip [] = Inl (Error ''Could not determine ip address'')"
| "first_local_ip (addr # addrs) =
     (case (case addr of IPNet v \<Rightarrow> v | IPAddr v \<Rightarrow> v | OtherAddr \<Rightarrow> None) of
        None \<Rightarrow> first_local_ip addrs
      | Some i \<Rightarrow>
          if IsLoopback i then first_local_ip addrs
          else (case To4 i of
                  None \<Rightarrow> first_local_ip addrs
                | Some ip4 \<Rightarrow> Inr ip4))"

definition getFirstLocalIPAddr :: "error + addr list \<Rightarrow> error + string" where
  "getFirstLocalIPAddr addrs_result =
     (case addrs_result of
        Inl err \<Rightarrow> Inl err
      | Inr addrs \<Rightarrow> first_local_ip addrs)"

text \<open>
  What \<open>NewIPTransport\<close> calls outside src/, as parameters: the result of
  \<open>net.InterfaceAddrs()\<close>, \<open>util.NewFileStorage\<close>,
  \<open>netio.MAC48Address\<close>, the draw of \<open>util.RandomHexString\<close>,
  \<open>db.NewDatabaseWithStorage\<close>, \<open>NewPin\<close> and \<open>netio.NewSecuredDevice\<close>, which returns
  the Go pair \<open>(device, err)\<close> and the database as it leaves it.
\<close>

record ('e, 'dev) env =
  InterfaceAddrs :: "error + addr list"
  NewFileStorage :: "string \<Rightarrow> error + storage"
  MAC48Address :: "string \<Rightarrow> string"
  RandomHexString :: string
  NewDatabaseWithStorage :: "storage \<Rightarrow> 'e database"
  NewPin :: "string \<Rightarrow> error + string"
  NewSecuredDevice :: "string \<Rightarrow> string \<Rightarrow> 'e database \<Rightarrow> ('dev \<times> error option) \<times> 'e database"

text \<open>The configuration that \<open>NewIPTransport\<close> builds from the caller's and the defaults.\<close>

definition default_config :: "Config \<Rightarrow> string \<Rightarrow> string \<Rightarrow> Config" where
  "default_config cfg nm ip =
     (let d = \<lparr>StoragePath = nm, Port = '''', AdvertisedPort = '''', IP = ip,
               AdvertisedIP = '''', Hostname = '''', Pin = ''00102003''\<rparr>;
          d = (if length (StoragePath cfg) > 0 then d\<lparr>StoragePath := StoragePath cfg\<rparr> else d);
          d = (if length (Pin cfg) > 0 then d\<lparr>Pin := Pin cfg\<rparr> else d);
          d = (if length (Port cfg) > 0 then d\<lparr>Port := '':'' @ Port cfg\<rparr> else d);
          d = (if length (IP cfg) > 0 then d\<lparr>IP := IP cfg\<rparr> else d);
          d = (if length (AdvertisedPort cfg) > 0
               then d\<lparr>AdvertisedPort := '':'' @ AdvertisedPort cfg\<rparr>
               else d\<lparr>AdvertisedPort := Port d\<rparr>);
          d = (if length (AdvertisedIP cfg) > 0
               then d\<lparr>AdvertisedIP := AdvertisedIP cfg\<rparr>
               else d\<lparr>AdvertisedIP := IP d\<rparr>);
          d = (if length (Hostname cfg) > 0 then d\<lparr>Hostname := Hostname cfg\<rparr> else d)
      in d)"

text \<open>
  \<open>addAccessory\<close> puts the accessory into the container. The two callbacks it registers
  on every characteristic are \<open>onConnChange\<close> and \<open>onChange\<close> below.
\<close>

definition addAccessory :: "accessory \<Rightarrow> ('e, 'dev) ipTransport \<Rightarrow> ('e, 'dev) ipTransport" where
  "addAccessory a t = t\<lparr>container := container t @ [a]\<rparr>"

text \<open>
  \<open>NewIPTransport\<close> returns the Go pair \<open>(transport, err)\<close>, or the process exits. Its
  last statement returns the transport together with the error of
  \<open>netio.NewSecuredDevice\<close>.
\<close>

definition NewIPTransport ::
  "('e, 'dev) env \<Rightarrow> Config \<Rightarrow> accessory \<Rightarrow> accessory list
     \<Rightarrow> (('e, 'dev) ipTransport option \<times> error option) outcome" where
  "NewIPTransport env cfg a as =
     (let nm = Info_Name a in
      if length nm = 0 then Fatal (Error ''Invalid empty name for first accessory'')
      else case getFirstLocalIPAddr (InterfaceAddrs env) of
        Inl err \<Rightarrow> Returned (None, Some err)
      | Inr ip \<Rightarrow>
         (let dc = default_config cfg nm ip in
          case NewFileStorage env (StoragePath dc) of
            Inl err \<Rightarrow> Returned (None, Some err)
          | Inr storage \<Rightarrow>
             (case transportUUIDInStorage (MAC48Address env) (RandomHexString env) storage of
                Fatal e \<Rightarrow> Fatal e
              | Returned (uuid, storage') \<Rightarrow>
                 (let db = NewDatabaseWithStorage env storage' in
                  case NewPin env (Pin dc) of
                    Inl err \<Rightarrow> Returned (None, Some err)
                  | Inr hap_pin \<Rightarrow>
                     (let ((dev, err), db') = NewSecuredDevice env uuid hap_pin db;
                          t = \<lparr>config = dc, database = db', mdns = None, name = nm,
                               device = dev, container = [], active = []\<rparr>;
                          t = addAccessory a t;
                          t = fold addAccessory as t
                      in Returned (Some t, err))))))"

text \<open>\<open>isPaired\<close>: more than one entity in the database, the transport being one itself.\<close>

definition isPaired :: "('e, 'dev) ipTransport \<Rightarrow> bool" where
  "isPaired t =
     (let (es, err) = Entities (database t) in
      if err = None \<and> length es > 1 then True else False)"

definition updateMDNSReachability :: "('e, 'dev) ipTransport \<Rightarrow> ('e, 'dev) ipTransport" where
  "updateMDNSReachability t =
     (case mdns t of
        Some m \<Rightarrow> t\<lparr>mdns := Some (Update (SetReachable (isPaired t = False) m))\<rparr>
      | None \<Rightarrow> t)"

text \<open>The events the emitter hands to \<open>Handle\<close>; any other value takes the default branch.\<close>

datatype event = DevicePaired | DeviceUnpaired | OtherEvent

fun Handle :: "event \<Rightarrow> ('e, 'dev) ipTransport \<Rightarrow> ('e, 'dev) ipTransport" where
  "Handle DevicePaired t = updateMDNSReachability t"
| "Handle DeviceUnpaired t = updateMDNSReachability t"
| "Handle OtherEvent t = t"

text \<open>
  The part of \<open>Start\<close> that sets up the mDNS service: \<open>new_mdns\<close> is what
  \<open>NewMDNSService\<close> returns. A paired accessory is made unreachable before it is
  published. (The server that \<open>Start\<close> then runs is not modelled.)
\<close>

definition Start_mdns :: "MDNSService \<Rightarrow> ('e, 'dev) ipTransport \<Rightarrow> ('e, 'dev) ipTransport" where
  "Start_mdns new_mdns t =
     (let m = new_mdns;
          m = (if isPaired t then SetReachable False m else m)
      in t\<lparr>mdns := Some (Publish m)\<rparr>)"

section \<open>Event notification\<close>

text \<open>
  The network as \<open>notifyListener\<close> sees it: \<open>calls\<close> is every \<open>conn.Write\<close> call made
  so far, in order, and \<open>broken\<close> the connections on which \<open>Write\<close> returns an error and
  delivers nothing.
\<close>

record net =
  calls :: "(conn \<times> bytes) list"
  broken :: "conn set"

definition conn_Write :: "conn \<Rightarrow> bytes \<Rightarrow> net \<Rightarrow> error option \<times> net" where
  "conn_Write k b w =
     (if k \<in> broken w then Some (Error ''write failed'') else None,
      w\<lparr>calls := calls w @ [(k, b)]\<rparr>)"

definition sent_to :: "net \<Rightarrow> conn \<Rightarrow> bytes list" where
  "sent_to w k = map snd (filter (\<lambda>p. fst p = k) (calls w))"

definition delivered :: "net \<Rightarrow> conn \<Rightarrow> bytes list" where
  "delivered w k = (if k \<in> broken w then [] else sent_to w k)"

text \<open>
  Modelled from the spec: \<open>netio.FixProtocolSpecifier\<close> is not under src/. It substitutes
  the status-line protocol token with the event-specific token: the first occurrence of
  \<open>old\<close> in the bytes is replaced by \<open>new\<close>, and bytes without it are left as they are.
\<close>

fun replace_first :: "bytes \<Rightarrow> bytes \<Rightarrow> bytes \<Rightarrow> bytes" where
  "replace_first old new [] = (if old = [] then new else [])"
| "replace_first old new (x # xs) =
     (if take (length old) (x # xs) = old then new @ drop (length old) (x # xs)
      else x # replace_first old new xs)"

definition FixProtocolSpecifier :: "bytes \<Rightarrow> bytes \<Rightarrow> bytes \<Rightarrow> bytes" where
  "FixProtocolSpecifier http_token event_token b = replace_first http_token event_token b"

text \<open>
  What \<open>notifyListener\<close> calls in package netio, as parameters: \<open>New\<close> builds the event
  response of a characteristic or fails; \<open>resp_Write\<close> is what \<open>resp.Write(buffer)\<close>
  leaves in the buffer (its error is not looked at); the two tokens are those of
  \<open>FixProtocolSpecifier\<close>.
\<close>

record 'r netio =
  New :: "accessory \<Rightarrow> characteristic \<Rightarrow> error + 'r"
  resp_Write :: "'r \<Rightarrow> bytes"
  http_token :: bytes
  event_token :: bytes

text \<open>
  The loop of \<open>notifyListener\<close> over the active connections. \<open>except\<close> is \<open>None\<close> for
  Go's \<open>nil\<close>. The result of \<open>conn.Write\<close> is dropped, as in the source.
\<close>

fun notifyListener_loop ::
  "'r netio \<Rightarrow> accessory \<Rightarrow> characteristic \<Rightarrow> conn option \<Rightarrow> conn list \<Rightarrow> net \<Rightarrow> net outcome" where
  "notifyListener_loop io a c except [] w = Returned w"
| "notifyListener_loop io a c except (conn # conns) w =
     (if Some conn = except then notifyListener_loop io a c except conns w
      else case New io a c of
             Inl err \<Rightarrow> Fatal err
           | Inr resp \<Rightarrow>
               (let buffer = resp_Write io resp;
                    b = FixProtocolSpecifier (http_token io) (event_token io) buffer;
                    (err, w') = conn_Write conn b w
                in notifyListener_loop io a c except conns w'))"

definition notifyListener ::
  "'r netio \<Rightarrow> ('e, 'dev) ipTransport \<Rightarrow> accessory \<Rightarrow> characteristic \<Rightarrow> conn option \<Rightarrow> net
     \<Rightarrow> net outcome" where
  "notifyListener io t a c except w = notifyListener_loop io a c except (active t) w"

text \<open>The callbacks that \<open>addAccessory\<close> registers on each characteristic.\<close>

definition onConnChange ::
  "'r netio \<Rightarrow> ('e, 'dev) ipTransport \<Rightarrow> accessory \<Rightarrow> conn \<Rightarrow> characteristic \<Rightarrow> net
     \<Rightarrow> net outcome" where
  "onConnChange io t a conn c w =
     (if Events c = True then notifyListener io t a c (Some conn) w else Returned w)"

definition onChange ::
  "'r netio \<Rightarrow> ('e, 'dev) ipTransport \<Rightarrow> accessory \<Rightarrow> characteristic \<Rightarrow> net \<Rightarrow> net outcome" where
  "onChange io t a c w =
     (if Events c = True then notifyListener io t a c None w else Returned w)"

text \<open>
  The recipients as the specification words them, to compare with the code: the active
  connections whose session has the characteristic's identifier in its subscribed set,
  except the one that caused the change. \<open>subscribed\<close> gives the subscribed set of each
  connection's session.
\<close>

definition spec_recipients ::
  "(conn \<Rightarrow> int set) \<Rightarrow> characteristic \<Rightarrow> conn option \<Rightarrow> conn list \<Rightarrow> conn list" where
  "spec_recipients subscribed c except conns =
     filter (\<lambda>k. ID c \<in> subscribed k \<and> Some k \<noteq> except) conns"

section \<open>The pair-setup endpoint\<close>

text \<open>
  A pair-setup controller is a mutable object that the session points to: a controller is
  its identity and its state. A session holds at most one (\<open>None\<close> is \<open>nil\<close>). The world
  of the handler is the sessions of the context by connection key, the number of
  controllers created so far (the next identity) and, for every call of
  \<open>pair.HandleReaderForHandler\<close> on a controller, the connection and the controller it
  was given.
\<close>

record 's controller =
  ctrl_id :: nat
  ctrl_state :: 's

record 's session =
  pairSetupHandler :: "'s controller option"

record 's world =
  sessions :: "conn \<rightharpoonup> 's session"
  created :: nat
  dispatched :: "(conn \<times> nat) list"

record request =
  conn_key :: conn
  Body :: bytes

record response =
  status :: nat
  header :: "(string \<times> string) list"
  body :: bytes

text \<open>
  What \<open>ServeHTTP\<close> calls in package pair, as parameters: \<open>NewSetupServerController\<close>
  returns the Go pair \<open>(controller, err)\<close>, the controller being its first state or
  \<open>nil\<close>; \<open>HandleReaderForHandler\<close> gives the reader's bytes or an error and leaves the
  controller in a new state; \<open>handle_nil\<close> is the same call on a \<open>nil\<close> controller, where
  \<open>None\<close> is a panic. \<open>content_type\<close> is \<open>netio.HTTPContentTypePairingTLV8\<close>.
\<close>

record 's pair =
  NewSetupServerController :: "'s option \<times> error option"
  HandleReaderForHandler :: "bytes \<Rightarrow> 's \<Rightarrow> (error + bytes) \<times> 's"
  handle_nil :: "bytes \<Rightarrow> (error + bytes) option"
  content_type :: string

text \<open>A request is served, or its handler panics (net/http then drops the connection).\<close>

datatype 'a served = Panicked | Served 'a

definition StatusInternalServerError :: nat where
  "StatusInternalServerError = 500"

text \<open>
  The end of \<open>ServeHTTP\<close>: on an error only the status is written; otherwise the bytes
  read from the result are written as the body.
\<close>

definition finish :: "response \<Rightarrow> error + bytes \<Rightarrow> response" where
  "finish rsp r =
     (case r of
        Inl err \<Rightarrow> rsp\<lparr>status := StatusInternalServerError\<rparr>
      | Inr b \<Rightarrow> rsp\<lparr>body := body rsp @ b\<rparr>)"

definition ServeHTTP :: "'s pair \<Rightarrow> request \<Rightarrow> 's world \<Rightarrow> (response \<times> 's world) served" where
  "ServeHTTP p rq w =
     (let rsp = \<lparr>status = 200, header = [(''Content-Type'', content_type p)], body = []\<rparr>;
          key = conn_key rq
      in case sessions w key of
           None \<Rightarrow> Panicked
         | Some session \<Rightarrow>
            (let (ctrl, w) =
                   (case pairSetupHandler session of
                      None \<Rightarrow>
                        (let (c, err) = NewSetupServerController p;
                             ctrl = map_option (\<lambda>s. \<lparr>ctrl_id = created w, ctrl_state = s\<rparr>) c;
                             n = (if c = None then created w else created w + 1)
                         in (ctrl, w\<lparr>sessions := (sessions w)(key \<mapsto> session\<lparr>pairSetupHandler := ctrl\<rparr>),
                                      created := n\<rparr>))
                    | Some c \<Rightarrow> (Some c, w))
             in case ctrl of
                  None \<Rightarrow>
                    (case handle_nil p (Body rq) of
                       None \<Rightarrow> Panicked
                     | Some r \<Rightarrow> Served (finish rsp r, w))
                | Some c \<Rightarrow>
                    (let (r, s') = HandleReaderForHandler p (Body rq) (ctrl_state c);
                         w = w\<lparr>sessions := (sessions w)(key \<mapsto> session\<lparr>pairSetupHandler := Some (c\<lparr>ctrl_state := s'\<rparr>)\<rparr>),
                                dispatched := dispatched w @ [(key, ctrl_id c)]\<rparr>
                     in Served (finish rsp r, w))))"

text \<open>Requests served one after the other; a panic ends the run.\<close>

fun serve_all :: "'s pair \<Rightarrow> request list \<Rightarrow> 's world \<Rightarrow> 's world served" where
  "serve_all p [] w = Served w"
| "serve_all p (rq # rqs) w =
     (case ServeHTTP p rq w of
        Panicked \<Rightarrow> Panicked
      | Served (rsp, w') \<Rightarrow> serve_all p rqs w')"

section \<open>Concrete inputs\<close>

text \<open>
  A lamp with two characteristics, storages in three conditions, stand-ins for the
  functions taken as parameters, and the transports, networks and pair-setup worlds at
  which the theorems below are evaluated.
\<close>

definition sample_characteristic :: characteristic where
  "sample_characteristic = \<lparr>ID = 9, Events = True\<rparr>"

definition silent_characteristic :: characteristic where
  "silent_characteristic = \<lparr>ID = 10, Events = False\<rparr>"

definition sample_accessory :: accessory where
  "sample_accessory =
     \<lparr>Info_Name = ''lamp'',
      Services = [\<lparr>Characteristics = [sample_characteristic, silent_characteristic]\<rparr>]\<rparr>"

definition sample_MAC48Address :: "string \<Rightarrow> string" where
  "sample_MAC48Address str = ''7C:'' @ take 2 str @ '':3C:4D:5E:6F''"

definition storage_with_uuid :: storage where
  "storage_with_uuid =
     \<lparr>entries = [''uuid'' \<mapsto> ''1A:2B:3C:4D:5E:6F''], unreadable = False, read_only = False,
      written = []\<rparr>"

definition read_only_storage :: storage where
  "read_only_storage =
     \<lparr>entries = Map.empty, unreadable = False, read_only = True, written = []\<rparr>"

definition unreadable_storage :: storage where
  "unreadable_storage =
     \<lparr>entries = [''uuid'' \<mapsto> ''1A:2B:3C:4D:5E:6F''], unreadable = True, read_only = False,
      written = []\<rparr>"

definition sample_NewFileStorage :: "string \<Rightarrow> error + storage" where
  "sample_NewFileStorage path = Inr storage_with_uuid"

definition failing_NewFileStorage :: "string \<Rightarrow> error + storage" where
  "failing_NewFileStorage path = Inl (Error ''cannot create directory'')"

definition sample_NewDatabaseWithStorage :: "storage \<Rightarrow> string database" where
  "sample_NewDatabaseWithStorage st = \<lparr>entities = [], read_error = None\<rparr>"

definition sample_NewPin :: "string \<Rightarrow> error + string" where
  "sample_NewPin pin = (if length pin = 8 then Inr pin else Inl (Error ''invalid pin''))"

definition sample_NewSecuredDevice ::
  "string \<Rightarrow> string \<Rightarrow> string database \<Rightarrow> (string \<times> error option) \<times> string database" where
  "sample_NewSecuredDevice uuid pin db = ((uuid @ ''/'' @ pin, None), SaveEntity uuid db)"

definition sample_env :: "(string, string) env" where
  "sample_env =
     \<lparr>InterfaceAddrs = Inr [IPNet (Some \<lparr>IsLoopback = True, To4 = Some ''127.0.0.1''\<rparr>),
                            IPNet (Some \<lparr>IsLoopback = False, To4 = None\<rparr>),
                            IPNet (Some \<lparr>IsLoopback = False, To4 = Some ''192.168.0.2''\<rparr>)],
      NewFileStorage = sample_NewFileStorage,
      MAC48Address = sample_MAC48Address, RandomHexString = ''9E01'',
      NewDatabaseWithStorage = sample_NewDatabaseWithStorage, NewPin = sample_NewPin,
      NewSecuredDevice = sample_NewSecuredDevice\<rparr>"

definition failing_env :: "(string, string) env" where
  "failing_env = sample_env\<lparr>NewFileStorage := failing_NewFileStorage\<rparr>"

definition empty_config :: Config where
  "empty_config =
     \<lparr>StoragePath = '''', Port = '''', AdvertisedPort = '''', IP = '''', AdvertisedIP = '''',
      Hostname = '''', Pin = ''''\<rparr>"

definition fresh_transport :: "(string, string) ipTransport" where
  "fresh_transport =
     \<lparr>config = \<lparr>StoragePath = ''lamp'', Port = '''', AdvertisedPort = '''',
                 IP = ''192.168.0.2'', AdvertisedIP = ''192.168.0.2'', Hostname = '''',
                 Pin = ''00102003''\<rparr>,
      database = \<lparr>entities = [''1A:2B:3C:4D:5E:6F''], read_error = None\<rparr>,
      mdns = None, name = ''lamp'', device = ''1A:2B:3C:4D:5E:6F/00102003'',
      container = [sample_accessory], active = []\<rparr>"

definition serving_transport :: "(string, string) ipTransport" where
  "serving_transport =
     fresh_transport\<lparr>mdns := Some \<lparr>reachable = True, announced = Some True\<rparr>,
                     active := [1, 2]\<rparr>"

definition paired_transport :: "(string, string) ipTransport" where
  "paired_transport =
     serving_transport\<lparr>database := SaveEntity ''controller'' (database serving_transport)\<rparr>"

definition sample_New :: "accessory \<Rightarrow> characteristic \<Rightarrow> error + bytes" where
  "sample_New a c = Inr ''HTTP/1.0 200 OK''"

definition failing_New :: "accessory \<Rightarrow> characteristic \<Rightarrow> error + bytes" where
  "failing_New a c = Inl (Error ''json: unsupported value'')"

definition sample_resp_Write :: "bytes \<Rightarrow> bytes" where
  "sample_resp_Write resp = resp"

definition sample_netio :: "bytes netio" where
  "sample_netio =
     \<lparr>New = sample_New, resp_Write = sample_resp_Write, http_token = ''HTTP/1.0'',
      event_token = ''EVENT/1.0''\<rparr>"

definition failing_netio :: "bytes netio" where
  "failing_netio = sample_netio\<lparr>New := failing_New\<rparr>"

definition quiet_net :: net where
  "quiet_net = \<lparr>calls = [], broken = {}\<rparr>"

definition net_broken_1 :: net where
  "net_broken_1 = \<lparr>calls = [], broken = {1}\<rparr>"

definition no_subscriptions :: "conn \<Rightarrow> int set" where
  "no_subscriptions k = {}"

definition sample_Handle :: "bytes \<Rightarrow> nat \<Rightarrow> (error + bytes) \<times> nat" where
  "sample_Handle b s = (Inr b, s + 1)"

definition failing_Handle :: "bytes \<Rightarrow> nat \<Rightarrow> (error + bytes) \<times> nat" where
  "failing_Handle b s = (Inl (Error ''unexpected tlv''), s)"

definition sample_handle_nil :: "bytes \<Rightarrow> (error + bytes) option" where
  "sample_handle_nil b = None"

definition sample_pair :: "nat pair" where
  "sample_pair =
     \<lparr>NewSetupServerController = (Some 0, None), HandleReaderForHandler = sample_Handle,
      handle_nil = sample_handle_nil, content_type = ''application/pairing+tlv8''\<rparr>"

definition failing_pair :: "nat pair" where
  "failing_pair = sample_pair\<lparr>HandleReaderForHandler := failing_Handle\<rparr>"

definition new_session :: "nat session" where
  "new_session = \<lparr>pairSetupHandler = None\<rparr>"

definition sample_world :: "nat world" where
  "sample_world = \<lparr>sessions = [1 \<mapsto> new_session], created = 0, dispatched = []\<rparr>"

definition M1_request :: request where
  "M1_request = \<lparr>conn_key = 1, Body = ''M1''\<rparr>"

definition M3_request :: request where
  "M3_request = \<lparr>conn_key = 1, Body = ''M3''\<rparr>"

definition stored_world :: "nat world" where
  "stored_world =
     \<lparr>sessions = [1 \<mapsto> \<lparr>pairSetupHandler = Some \<lparr>ctrl_id = 0, ctrl_state = 1\<rparr>\<rparr>],
      created = 1, dispatched = [(1, 0)]\<rparr>"

definition custom_pin_transport :: "(string, string) ipTransport" where
  "custom_pin_transport =
     fresh_transport\<lparr>config := (config fresh_transport)\<lparr>Pin := ''12344321''\<rparr>,
                     device := ''1A:2B:3C:4D:5E:6F/12344321''\<rparr>"

section \<open>The accessory identifier is stable\<close>




text \<open>
  A fresh identifier is written once: on a readable, writable storage without an
  identifier, the first call generates and writes it and the second call returns it
  without writing. On a storage that cannot be read, every call generates anew.
\<close>

lemma fresh_identifier_persisted_once:
  assumes "entries st ''uuid'' = None" and "\<not> unreadable st" and "\<not> read_only st"
    and "mac r1 \<noteq> []"
  shows "\<exists>st'. uuid_twice mac r1 r2 st = Returned (mac r1, mac r1, st') \<and>
           written st' = written st @ [(''uuid'', mac r1)]"
  using assms
  by (simp add: uuid_twice_def transportUUIDInStorage_def storage_Get_def storage_Set_def Let_def)

lemma unreadable_storage_regenerates:
  assumes "unreadable st" and "\<not> read_only st"
  shows "\<exists>st'. uuid_twice mac r1 r2 st = Returned (mac r1, mac r2, st')"
  using assms
  by (simp add: uuid_twice_def transportUUIDInStorage_def storage_Get_def storage_Set_def Let_def)

lemma hex_groups_length: "hex_groups n s \<Longrightarrow> length s + 1 = 3 * n"
  by (induction n s rule: hex_groups.induct) (auto split: list.splits)

lemma is_MAC48_length: "is_MAC48 s \<Longrightarrow> length s = 17"
  using hex_groups_length [of 6 s] by (simp add: is_MAC48_def)

section \<open>Storage errors\<close>

text \<open>
  Claim C3, as amended. A storage error is not always confined to the operation in
  progress. In \<open>transportUUIDInStorage\<close> the process exits exactly when no non-empty
  identifier can be read and writing the fresh one fails; a failed read alone is taken
  for a missing identifier, and the call returns a fresh one. A storage that cannot be
  opened makes \<open>NewIPTransport\<close> return the error, the process going on.
\<close>

theorem storage_errors_and_the_identifier:
  "((\<exists>e. transportUUIDInStorage mac r st = Fatal e) \<longleftrightarrow>
      ((fst (storage_Get st ''uuid'') = [] \<or> snd (storage_Get st ''uuid'') \<noteq> None) \<and>
       fst (storage_Set st ''uuid'' (mac r)) \<noteq> None)) \<and>
   (unreadable st \<and> \<not> read_only st \<longrightarrow>
      (\<exists>st'. transportUUIDInStorage mac r st = Returned (mac r, st'))) \<and>
   (Info_Name a \<noteq> [] \<and> getFirstLocalIPAddr (InterfaceAddrs env) = Inr ip \<and>
    NewFileStorage env (StoragePath (default_config cfg (Info_Name a) ip)) = Inl err \<longrightarrow>
      NewIPTransport env cfg a others = Returned (None, Some err))"
  by (auto simp: transportUUIDInStorage_def storage_Get_def storage_Set_def NewIPTransport_def
           Let_def split: option.splits prod.splits)

theorem storage_errors_and_the_identifier_witness:
  "unreadable unreadable_storage \<and> \<not> read_only unreadable_storage \<and>
   transportUUIDInStorage sample_MAC48Address ''9E01'' unreadable_storage =
     Returned (''7C:9E:3C:4D:5E:6F'',
               unreadable_storage\<lparr>entries := [''uuid'' \<mapsto> ''7C:9E:3C:4D:5E:6F''],
                                   written := [(''uuid'', ''7C:9E:3C:4D:5E:6F'')]\<rparr>) \<and>
   Info_Name sample_accessory \<noteq> [] \<and>
   getFirstLocalIPAddr (InterfaceAddrs failing_env) = Inr ''192.168.0.2'' \<and>
   NewFileStorage failing_env
     (StoragePath (default_config empty_config (Info_Name sample_accessory) ''192.168.0.2'')) =
     Inl (Error ''cannot create directory'') \<and>
   NewIPTransport failing_env empty_config sample_accessory [] =
     Returned (None, Some (Error ''cannot create directory''))"
  using storage_errors_and_the_identifier
          [of sample_MAC48Address "''9E01''" unreadable_storage sample_accessory failing_env
              "''192.168.0.2''" empty_config "Error ''cannot create directory''" "[]"]
  by (simp add: transportUUIDInStorage_def storage_Get_def storage_Set_def Let_def
                unreadable_storage_def sample_MAC48Address_def sample_accessory_def
                failing_env_def sample_env_def failing_NewFileStorage_def
                getFirstLocalIPAddr_def)

text \<open>
  Claim C3 as stated fails: on a storage without an identifier that refuses the write,
  \<open>transportUUIDInStorage\<close> ends the process.
\<close>

theorem storage_write_error_exits_process:
  "transportUUIDInStorage sample_MAC48Address ''9E01'' read_only_storage =
     Fatal (Error ''write failed'')"
  by (simp add: transportUUIDInStorage_def storage_Get_def storage_Set_def Let_def
                read_only_storage_def)

section \<open>The pairing state\<close>

lemma isPaired_iff:
  "isPaired t \<longleftrightarrow> read_error (database t) = None \<and> 1 < length (entities (database t))"
  by (simp add: isPaired_def Entities_def split: option.splits)

text \<open>
  Claim C2. In a readable database that holds the transport's own entity and nothing
  else, \<open>isPaired\<close> is false; once the record of a controller is stored it is true; once
  that sole record is removed it is false again.
\<close>

theorem isPaired_lifecycle:
  assumes "entities (database t) = [dev]" and "read_error (database t) = None"
    and "ctrl \<noteq> dev"
  shows "\<not> isPaired t \<and>
         isPaired (t\<lparr>database := SaveEntity ctrl (database t)\<rparr>) \<and>
         \<not> isPaired (t\<lparr>database := DeleteEntity ctrl (SaveEntity ctrl (database t))\<rparr>)"
  using assms by (simp add: isPaired_iff SaveEntity_def DeleteEntity_def)

theorem isPaired_lifecycle_witness:
  "entities (database fresh_transport) = [''1A:2B:3C:4D:5E:6F''] \<and>
   read_error (database fresh_transport) = None \<and>
   ''controller'' \<noteq> ''1A:2B:3C:4D:5E:6F'' \<and>
   \<not> isPaired fresh_transport \<and>
   isPaired (fresh_transport\<lparr>database := SaveEntity ''controller'' (database fresh_transport)\<rparr>) \<and>
   \<not> isPaired (fresh_transport\<lparr>database :=
        DeleteEntity ''controller'' (SaveEntity ''controller'' (database fresh_transport))\<rparr>)"
proof -
  have e: "entities (database fresh_transport) = [''1A:2B:3C:4D:5E:6F'']"
    and r: "read_error (database fresh_transport) = None"
    by (simp_all add: fresh_transport_def)
  have d: "''controller'' \<noteq> ''1A:2B:3C:4D:5E:6F''" by simp
  from isPaired_lifecycle [OF e r d] e r d show ?thesis by simp
qed

text \<open>
  What \<open>isPaired\<close> counts: with the transport's own entity first, it is true exactly when
  another entity follows; when the entities cannot be read it is false.
\<close>

lemma isPaired_counts_controllers:
  assumes "entities (database t) = dev # ctrls" and "read_error (database t) = None"
  shows "isPaired t \<longleftrightarrow> ctrls \<noteq> []"
  using assms by (simp add: isPaired_iff)

lemma isPaired_read_error:
  "read_error (database t) = Some e \<Longrightarrow> \<not> isPaired t"
  by (simp add: isPaired_iff)

section \<open>Reachability\<close>

lemma isPaired_updateMDNSReachability:
  "isPaired (updateMDNSReachability t) = isPaired t"
  by (simp add: updateMDNSReachability_def isPaired_iff split: option.splits)

text \<open>
  Claim C5. After \<open>Handle\<close> has handled a paired or an unpaired event, the reachable flag
  of the mDNS service, and the flag it announces, is the negation of \<open>isPaired\<close>; with the
  transport's own entity in a readable database, the flag is true exactly when no
  controller record is stored. (Before \<open>Start\<close> there is no mDNS service and no flag.)
\<close>

theorem reachable_after_pairing_event:
  assumes "ev = DevicePaired \<or> ev = DeviceUnpaired"
  shows "(case mdns (Handle ev t) of
            None \<Rightarrow> mdns t = None
          | Some m \<Rightarrow> mdns t \<noteq> None \<and>
                     reachable m = (\<not> isPaired (Handle ev t)) \<and>
                     announced m = Some (\<not> isPaired (Handle ev t)) \<and>
                     (\<forall>dev ctrls. entities (database t) = dev # ctrls \<and>
                                  read_error (database t) = None \<longrightarrow>
                                  (reachable m \<longleftrightarrow> ctrls = [])))"
  using assms
  by (auto simp: updateMDNSReachability_def isPaired_iff SetReachable_def Update_def
           split: option.splits)

theorem reachable_after_pairing_event_witness:
  "isPaired (Handle DevicePaired paired_transport) \<and>
   mdns (Handle DevicePaired paired_transport) =
     Some \<lparr>reachable = False, announced = Some False\<rparr> \<and>
   entities (database paired_transport) = [''1A:2B:3C:4D:5E:6F'', ''controller''] \<and>
   \<not> isPaired (Handle DeviceUnpaired serving_transport) \<and>
   mdns (Handle DeviceUnpaired serving_transport) =
     Some \<lparr>reachable = True, announced = Some True\<rparr> \<and>
   entities (database serving_transport) = [''1A:2B:3C:4D:5E:6F'']"
  using reachable_after_pairing_event [of DevicePaired paired_transport]
        reachable_after_pairing_event [of DeviceUnpaired serving_transport]
  by (simp add: updateMDNSReachability_def isPaired_iff SetReachable_def Update_def
                paired_transport_def serving_transport_def fresh_transport_def SaveEntity_def)

text \<open>
  \<open>Start\<close> followed by a pairing event: whatever flag the new service starts with, the
  flag after the event is the negation of \<open>isPaired\<close>.
\<close>

lemma reachable_after_Start_and_event:
  "mdns (Handle DevicePaired (Start_mdns m0 t)) =
     Some \<lparr>reachable = (\<not> isPaired t), announced = Some (\<not> isPaired t)\<rparr>"
  by (simp add: Start_mdns_def updateMDNSReachability_def isPaired_iff SetReachable_def
                Update_def Publish_def Let_def)

section \<open>The pin\<close>

lemma default_config_Pin:
  "Pin (default_config cfg nm ip) = (if Pin cfg = [] then ''00102003'' else Pin cfg)"
  by (simp add: default_config_def Let_def)

lemma fold_addAccessory_fields:
  "config (fold addAccessory others t) = config t"
  "device (fold addAccessory others t) = device t"
  "database (fold addAccessory others t) = database t"
  by (induction others arbitrary: t) (simp_all add: addAccessory_def)

text \<open>
  Claim C9. Whenever \<open>NewIPTransport\<close> returns a transport, the pin of its configuration
  is \<open>00102003\<close> if the caller's \<open>Pin\<close> is empty and the caller's \<open>Pin\<close> otherwise, and
  the secured device, which pair-setup authenticates against, was made from that pin as
  \<open>NewPin\<close> formats it.
\<close>

theorem NewIPTransport_pin:
  assumes "NewIPTransport env cfg a others = Returned (Some t, err)"
  shows "Pin (config t) = (if Pin cfg = [] then ''00102003'' else Pin cfg) \<and>
         (\<exists>hap_pin uuid db.
            NewPin env (if Pin cfg = [] then ''00102003'' else Pin cfg) = Inr hap_pin \<and>
            NewSecuredDevice env uuid hap_pin db = ((device t, err), database t))"
proof -
  from assms obtain ip storage uuid storage' hap_pin dev db' where
    pin: "NewPin env (Pin (default_config cfg (Info_Name a) ip)) = Inr hap_pin" and
    dev: "NewSecuredDevice env uuid hap_pin (NewDatabaseWithStorage env storage') = ((dev, err), db')" and
    t: "t = fold addAccessory others (addAccessory a
           \<lparr>config = default_config cfg (Info_Name a) ip, database = db', mdns = None,
              name = Info_Name a, device = dev, container = [], active = []\<rparr>)"
    by (auto simp: NewIPTransport_def Let_def
             split: if_splits sum.splits outcome.splits prod.splits)
  from t have "config t = default_config cfg (Info_Name a) ip" "device t = dev" "database t = db'"
    by (simp_all add: fold_addAccessory_fields addAccessory_def)
  with pin dev show ?thesis
    by (auto simp: default_config_Pin)
qed

lemma NewIPTransport_sample:
  "NewIPTransport sample_env (empty_config\<lparr>Pin := p\<rparr>) sample_accessory [] =
     (if length (if p = [] then ''00102003'' else p) = 8
      then Returned (Some (fresh_transport
              \<lparr>config := (config fresh_transport)\<lparr>Pin := (if p = [] then ''00102003'' else p)\<rparr>,
               device := ''1A:2B:3C:4D:5E:6F/'' @ (if p = [] then ''00102003'' else p)\<rparr>), None)
      else Returned (None, Some (Error ''invalid pin'')))"
  by (simp add: NewIPTransport_def Let_def sample_env_def empty_config_def sample_accessory_def
                getFirstLocalIPAddr_def sample_NewFileStorage_def transportUUIDInStorage_def storage_Get_def
                storage_with_uuid_def default_config_def sample_NewPin_def
                sample_NewSecuredDevice_def sample_NewDatabaseWithStorage_def SaveEntity_def
                addAccessory_def fresh_transport_def)

theorem NewIPTransport_pin_witness:
  "NewIPTransport sample_env empty_config sample_accessory [] =
     Returned (Some fresh_transport, None) \<and>
   Pin (config fresh_transport) = ''00102003'' \<and>
   NewPin sample_env ''00102003'' = Inr ''00102003'' \<and>
   device fresh_transport = ''1A:2B:3C:4D:5E:6F/00102003'' \<and>
   NewIPTransport sample_env (empty_config\<lparr>Pin := ''12344321''\<rparr>) sample_accessory [] =
     Returned (Some custom_pin_transport, None) \<and>
   Pin (config custom_pin_transport) = ''12344321'' \<and>
   device custom_pin_transport = ''1A:2B:3C:4D:5E:6F/12344321''"
proof -
  have a: "NewIPTransport sample_env empty_config sample_accessory [] =
             Returned (Some fresh_transport, None)"
    using NewIPTransport_sample [of "[]"] by (simp add: empty_config_def fresh_transport_def)
  have b: "NewIPTransport sample_env (empty_config\<lparr>Pin := ''12344321''\<rparr>) sample_accessory [] =
             Returned (Some custom_pin_transport, None)"
    using NewIPTransport_sample [of "''12344321''"] by (simp add: custom_pin_transport_def)
  from NewIPTransport_pin [OF a] NewIPTransport_pin [OF b] a b show ?thesis
    by (simp add: empty_config_def fresh_transport_def custom_pin_transport_def sample_env_def
                  sample_NewPin_def)
qed


section \<open>Event notification\<close>

lemma notifyListener_loop_ok:
  assumes "New io a c = Inr resp"
  shows "notifyListener_loop io a c except conns w =
           Returned (w\<lparr>calls := calls w @
              map (\<lambda>k. (k, FixProtocolSpecifier (http_token io) (event_token io) (resp_Write io resp)))
                  (filter (\<lambda>k. Some k \<noteq> except) conns)\<rparr>)"
  using assms
  by (induction conns arbitrary: w) (simp_all add: conn_Write_def)

lemma notifyListener_loop_failed:
  assumes "New io a c = Inl e"
  shows "notifyListener_loop io a c except conns w =
           (if \<exists>k\<in>set conns. Some k \<noteq> except then Fatal e else Returned w)"
  using assms
  by (induction conns arbitrary: w) simp_all

lemma replace_first_prefix:
  "replace_first old new (old @ rest) = new @ rest"
proof (cases "old @ rest")
  case Nil
  then show ?thesis by simp
next
  case (Cons x xs)
  have "take (length old) (old @ rest) = old" and "drop (length old) (old @ rest) = rest"
    by simp_all
  then have "replace_first old new (x # xs) = new @ rest"
    unfolding Cons by simp
  then show ?thesis by (simp add: Cons)
qed

lemma sent_to_append:
  "sent_to (w\<lparr>calls := calls w @ map (\<lambda>k. (k, m)) ks\<rparr>) k =
     sent_to w k @ replicate (length (filter (\<lambda>k'. k' = k) ks)) m"
  by (induction ks rule: rev_induct) (auto simp: sent_to_def replicate_append_same)

lemma sample_event_bytes:
  "FixProtocolSpecifier ''HTTP/1.0'' ''EVENT/1.0'' ''HTTP/1.0 200 OK'' = ''EVENT/1.0 200 OK''"
  by (simp add: FixProtocolSpecifier_def)

text \<open>
  Claim C1, as amended. When the value of a characteristic whose \<open>Events\<close> flag is set
  changes and the event response can be built, the event bytes are written once to every
  active connection other than the one that caused the change, and to every active
  connection when no connection caused it: no subscription of a session is looked at.
  When the flag is not set, nothing is written to any connection.
\<close>

theorem events_reach_every_other_connection:
  "(Events c \<and> New io a c = Inr resp \<longrightarrow>
      onConnChange io t a conn c w =
        Returned (w\<lparr>calls := calls w @
           map (\<lambda>k. (k, FixProtocolSpecifier (http_token io) (event_token io) (resp_Write io resp)))
               (filter (\<lambda>k. k \<noteq> conn) (active t))\<rparr>) \<and>
      onChange io t a c w =
        Returned (w\<lparr>calls := calls w @
           map (\<lambda>k. (k, FixProtocolSpecifier (http_token io) (event_token io) (resp_Write io resp)))
               (active t)\<rparr>)) \<and>
   (\<not> Events c \<longrightarrow>
      onConnChange io t a conn c w = Returned w \<and> onChange io t a c w = Returned w)"
  by (auto simp: onConnChange_def onChange_def notifyListener_def notifyListener_loop_ok
           intro!: arg_cong[where f = "filter _"] cong: filter_cong)

theorem events_reach_every_other_connection_witness:
  "Events sample_characteristic \<and>
   New sample_netio sample_accessory sample_characteristic = Inr ''HTTP/1.0 200 OK'' \<and>
   onConnChange sample_netio serving_transport sample_accessory 1 sample_characteristic quiet_net =
     Returned \<lparr>calls = [(2, ''EVENT/1.0 200 OK'')], broken = {}\<rparr> \<and>
   onChange sample_netio serving_transport sample_accessory sample_characteristic quiet_net =
     Returned \<lparr>calls = [(1, ''EVENT/1.0 200 OK''), (2, ''EVENT/1.0 200 OK'')], broken = {}\<rparr> \<and>
   \<not> Events silent_characteristic \<and>
   onConnChange sample_netio serving_transport sample_accessory 1 silent_characteristic quiet_net =
     Returned quiet_net \<and>
   onChange sample_netio serving_transport sample_accessory silent_characteristic quiet_net =
     Returned quiet_net"
  using events_reach_every_other_connection
          [of sample_characteristic sample_netio sample_accessory "''HTTP/1.0 200 OK''"
              serving_transport 1 quiet_net]
        events_reach_every_other_connection
          [of silent_characteristic sample_netio sample_accessory "''HTTP/1.0 200 OK''"
              serving_transport 1 quiet_net]
  by (simp add: sample_characteristic_def silent_characteristic_def sample_netio_def
                sample_New_def sample_resp_Write_def serving_transport_def quiet_net_def
                sample_event_bytes)

text \<open>
  Claim C1 as stated fails: with no session subscribed to anything, the specification's
  recipients are none, yet a change of the characteristic writes the event to both active
  connections.
\<close>

theorem unsubscribed_connections_are_notified:
  "spec_recipients no_subscriptions sample_characteristic None (active serving_transport) = [] \<and>
   onChange sample_netio serving_transport sample_accessory sample_characteristic quiet_net =
     Returned \<lparr>calls = [(1, ''EVENT/1.0 200 OK''), (2, ''EVENT/1.0 200 OK'')], broken = {}\<rparr>"
  by (simp add: spec_recipients_def no_subscriptions_def onChange_def notifyListener_def
                sample_characteristic_def sample_netio_def sample_New_def sample_resp_Write_def
                serving_transport_def quiet_net_def conn_Write_def sample_event_bytes)

text \<open>
  Claim C4, as amended. When the event response can be built, \<open>notifyListener\<close> returns
  whatever connections are broken, and every connection that is not broken and is not
  the excepted one has the event bytes delivered, once for each time it is listed: a
  failed write stops nothing. When the event response cannot be built and there is a
  connection to notify, the whole process exits.
\<close>

theorem write_failures_do_not_stop_the_broadcast:
  "(New io a c = Inr resp \<longrightarrow>
      (\<exists>w'. notifyListener io t a c except w = Returned w' \<and> broken w' = broken w \<and>
            (\<forall>k\<in>set (active t). Some k \<noteq> except \<and> k \<notin> broken w \<longrightarrow>
               delivered w' k = delivered w k @
                 replicate (length (filter (\<lambda>k'. k' = k) (active t)))
                   (FixProtocolSpecifier (http_token io) (event_token io) (resp_Write io resp)) \<and>
               0 < length (filter (\<lambda>k'. k' = k) (active t))))) \<and>
   (New io a c = Inl e \<and> (\<exists>k\<in>set (active t). Some k \<noteq> except) \<longrightarrow>
      notifyListener io t a c except w = Fatal e)"
proof (intro conjI impI)
  assume ok: "New io a c = Inr resp"
  let ?m = "FixProtocolSpecifier (http_token io) (event_token io) (resp_Write io resp)"
  let ?ks = "filter (\<lambda>k. Some k \<noteq> except) (active t)"
  let ?w' = "w\<lparr>calls := calls w @ map (\<lambda>k. (k, ?m)) ?ks\<rparr>"
  have r: "notifyListener io t a c except w = Returned ?w'"
    by (simp add: notifyListener_def notifyListener_loop_ok [OF ok])
  have "delivered ?w' k = delivered w k @
          replicate (length (filter (\<lambda>k'. k' = k) (active t))) ?m \<and>
        0 < length (filter (\<lambda>k'. k' = k) (active t))"
    if "k \<in> set (active t)" "Some k \<noteq> except" "k \<notin> broken w" for k
  proof -
    have "filter (\<lambda>k'. k' = k) ?ks = filter (\<lambda>k'. k' = k) (active t)"
      using that(2) by (auto intro: filter_cong)
    moreover from that(1) have "filter (\<lambda>k'. k' = k) (active t) \<noteq> []"
      by (simp add: filter_empty_conv)
    ultimately show ?thesis
      using that(3) by (simp add: delivered_def sent_to_append)
  qed
  with r show "\<exists>w'. notifyListener io t a c except w = Returned w' \<and> broken w' = broken w \<and>
            (\<forall>k\<in>set (active t). Some k \<noteq> except \<and> k \<notin> broken w \<longrightarrow>
               delivered w' k = delivered w k @
                 replicate (length (filter (\<lambda>k'. k' = k) (active t))) ?m \<and>
               0 < length (filter (\<lambda>k'. k' = k) (active t)))"
    by (intro exI[of _ ?w']) simp
next
  assume "New io a c = Inl e \<and> (\<exists>k\<in>set (active t). Some k \<noteq> except)"
  then show "notifyListener io t a c except w = Fatal e"
    by (simp add: notifyListener_def notifyListener_loop_failed)
qed

theorem write_failures_do_not_stop_the_broadcast_witness:
  "New sample_netio sample_accessory sample_characteristic = Inr ''HTTP/1.0 200 OK'' \<and>
   notifyListener sample_netio serving_transport sample_accessory sample_characteristic None
       net_broken_1 =
     Returned \<lparr>calls = [(1, ''EVENT/1.0 200 OK''), (2, ''EVENT/1.0 200 OK'')], broken = {1}\<rparr> \<and>
   2 \<in> set (active serving_transport) \<and> 2 \<notin> broken net_broken_1 \<and>
   delivered \<lparr>calls = [(1, ''EVENT/1.0 200 OK''), (2, ''EVENT/1.0 200 OK'')], broken = {1}\<rparr> 2 =
     [''EVENT/1.0 200 OK''] \<and>
   delivered \<lparr>calls = [(1, ''EVENT/1.0 200 OK''), (2, ''EVENT/1.0 200 OK'')], broken = {1}\<rparr> 1 = [] \<and>
   New failing_netio sample_accessory sample_characteristic =
     Inl (Error ''json: unsupported value'') \<and>
   notifyListener failing_netio serving_transport sample_accessory sample_characteristic None
       net_broken_1 =
     Fatal (Error ''json: unsupported value'')"
  using write_failures_do_not_stop_the_broadcast
          [of sample_netio sample_accessory sample_characteristic "''HTTP/1.0 200 OK''"
              serving_transport None net_broken_1 "Error ''json: unsupported value''"]
        write_failures_do_not_stop_the_broadcast
          [of failing_netio sample_accessory sample_characteristic "''HTTP/1.0 200 OK''"
              serving_transport None net_broken_1 "Error ''json: unsupported value''"]
  by (simp add: notifyListener_def conn_Write_def delivered_def sent_to_def sample_netio_def
                failing_netio_def sample_New_def failing_New_def sample_resp_Write_def
                serving_transport_def net_broken_1_def sample_event_bytes)

text \<open>
  Claim C4 as stated fails: with two active connections, an event response that cannot
  be built ends the whole process, and neither connection is written to.
\<close>

theorem event_build_error_exits_process:
  "onChange failing_netio serving_transport sample_accessory sample_characteristic quiet_net =
     Fatal (Error ''json: unsupported value'')"
  by (simp add: onChange_def notifyListener_def sample_characteristic_def failing_netio_def
                sample_netio_def failing_New_def serving_transport_def)

text \<open>
  Claim C6. Every byte string that \<open>notifyListener\<close> hands to \<open>conn.Write\<close> is the
  serialized response after \<open>FixProtocolSpecifier\<close>: where the serialized bytes start with
  the protocol token of the status line, the bytes written start with the event token
  instead and go on as the serialized bytes do.
\<close>

theorem event_bytes_are_fixed_before_the_write:
  assumes "notifyListener io t a c except w = Returned w'"
    and "(k, b) \<in> set (drop (length (calls w)) (calls w'))"
  shows "\<exists>resp. New io a c = Inr resp \<and>
           b = FixProtocolSpecifier (http_token io) (event_token io) (resp_Write io resp) \<and>
           (\<forall>rest. resp_Write io resp = http_token io @ rest \<longrightarrow> b = event_token io @ rest)"
proof (cases "New io a c")
  case (Inl e)
  with assms(1) have "w' = w"
    by (simp add: notifyListener_def notifyListener_loop_failed split: if_splits)
  with assms(2) show ?thesis by simp
next
  case (Inr resp)
  with assms show ?thesis
    by (auto simp: notifyListener_def notifyListener_loop_ok FixProtocolSpecifier_def
                   replace_first_prefix)
qed

theorem event_bytes_are_fixed_before_the_write_witness:
  "notifyListener sample_netio serving_transport sample_accessory sample_characteristic (Some 1)
       quiet_net =
     Returned \<lparr>calls = [(2, ''EVENT/1.0 200 OK'')], broken = {}\<rparr> \<and>
   (2, ''EVENT/1.0 200 OK'') \<in>
     set (drop (length (calls quiet_net)) (calls \<lparr>calls = [(2, ''EVENT/1.0 200 OK'')], broken = {}\<rparr>)) \<and>
   New sample_netio sample_accessory sample_characteristic = Inr ''HTTP/1.0 200 OK'' \<and>
   resp_Write sample_netio ''HTTP/1.0 200 OK'' = http_token sample_netio @ '' 200 OK'' \<and>
   ''EVENT/1.0 200 OK'' = event_token sample_netio @ '' 200 OK''"
proof -
  have r: "notifyListener sample_netio serving_transport sample_accessory sample_characteristic
             (Some 1) quiet_net =
           Returned \<lparr>calls = [(2, ''EVENT/1.0 200 OK'')], broken = {}\<rparr>"
    by (simp add: notifyListener_def conn_Write_def sample_netio_def sample_New_def
                  sample_resp_Write_def serving_transport_def quiet_net_def sample_event_bytes)
  have m: "(2, ''EVENT/1.0 200 OK'') \<in>
     set (drop (length (calls quiet_net)) (calls \<lparr>calls = [(2, ''EVENT/1.0 200 OK'')], broken = {}\<rparr>))"
    by (simp add: quiet_net_def)
  from event_bytes_are_fixed_before_the_write [OF r m] r m show ?thesis
    by (simp add: sample_netio_def sample_New_def sample_resp_Write_def)
qed


section \<open>The pair-setup endpoint\<close>

lemma ServeHTTP_stored:
  assumes "sessions w (conn_key rq) = Some session"
    and "pairSetupHandler session = Some c"
    and "HandleReaderForHandler p (Body rq) (ctrl_state c) = (r, s')"
  shows "ServeHTTP p rq w =
           Served (finish \<lparr>status = 200, header = [(''Content-Type'', content_type p)], body = []\<rparr> r,
                   w\<lparr>sessions := (sessions w)(conn_key rq \<mapsto>
                                    session\<lparr>pairSetupHandler := Some (c\<lparr>ctrl_state := s'\<rparr>)\<rparr>),
                      dispatched := dispatched w @ [(conn_key rq, ctrl_id c)]\<rparr>)"
  using assms by (simp add: ServeHTTP_def Let_def)

lemma ServeHTTP_first:
  assumes "sessions w (conn_key rq) = Some session"
    and "pairSetupHandler session = None"
    and "NewSetupServerController p = (Some s0, err0)"
    and "HandleReaderForHandler p (Body rq) s0 = (r, s')"
  shows "ServeHTTP p rq w =
           Served (finish \<lparr>status = 200, header = [(''Content-Type'', content_type p)], body = []\<rparr> r,
                   w\<lparr>sessions := (sessions w)(conn_key rq \<mapsto>
                        session\<lparr>pairSetupHandler := Some \<lparr>ctrl_id = created w, ctrl_state = s'\<rparr>\<rparr>),
                      created := created w + 1,
                      dispatched := dispatched w @ [(conn_key rq, created w)]\<rparr>)"
  using assms by (simp add: ServeHTTP_def Let_def)

text \<open>
  Requests on a connection whose session holds a controller: none creates a controller,
  each is dispatched to the stored one, and only that session changes.
\<close>

lemma serve_all_stored:
  assumes "sessions w key = Some session"
    and "pairSetupHandler session = Some c"
    and "\<forall>rq\<in>set rqs. conn_key rq = key"
  shows "\<exists>w' s. serve_all p rqs w = Served w' \<and>
           created w' = created w \<and>
           dispatched w' = dispatched w @ replicate (length rqs) (key, ctrl_id c) \<and>
           sessions w' = (sessions w)(key \<mapsto> session\<lparr>pairSetupHandler := Some (c\<lparr>ctrl_state := s\<rparr>)\<rparr>)"
  using assms
proof (induction rqs arbitrary: w session c)
  case Nil
  then show ?case
    by (auto intro!: exI[where x = "ctrl_state c"] simp: fun_upd_idem)
next
  case (Cons rq rqs)
  obtain r s' where h: "HandleReaderForHandler p (Body rq) (ctrl_state c) = (r, s')"
    by (cases "HandleReaderForHandler p (Body rq) (ctrl_state c)")
  let ?session = "session\<lparr>pairSetupHandler := Some (c\<lparr>ctrl_state := s'\<rparr>)\<rparr>"
  let ?w = "w\<lparr>sessions := (sessions w)(key \<mapsto> ?session),
               dispatched := dispatched w @ [(key, ctrl_id c)]\<rparr>"
  from Cons.prems have k: "conn_key rq = key" by simp
  have step: "ServeHTTP p rq w =
      Served (finish \<lparr>status = 200, header = [(''Content-Type'', content_type p)], body = []\<rparr> r, ?w)"
    using ServeHTTP_stored [of w rq session c p r s'] Cons.prems(1,2) h k by simp
  have "\<exists>w' s. serve_all p rqs ?w = Served w' \<and>
           created w' = created ?w \<and>
           dispatched w' = dispatched ?w @ replicate (length rqs) (key, ctrl_id (c\<lparr>ctrl_state := s'\<rparr>)) \<and>
           sessions w' = (sessions ?w)(key \<mapsto>
              ?session\<lparr>pairSetupHandler := Some (c\<lparr>ctrl_state := s', ctrl_state := s\<rparr>)\<rparr>)"
    using Cons.prems(3) by (intro Cons.IH) simp_all
  then obtain w' s where
    "serve_all p rqs ?w = Served w'" "created w' = created w"
    "dispatched w' = dispatched w @ (key, ctrl_id c) # replicate (length rqs) (key, ctrl_id c)"
    "sessions w' = (sessions w)(key \<mapsto> session\<lparr>pairSetupHandler := Some (c\<lparr>ctrl_state := s\<rparr>)\<rparr>)"
    by auto
  with step show ?case
    by (intro exI[of _ w'] exI[of _ s]) simp
qed

text \<open>
  Claim C8. On a connection whose session holds no pair-setup controller yet, with
  \<open>NewSetupServerController\<close> giving a controller, the first request creates one
  controller and stores it in the session of that connection; this and every later
  request on the connection is dispatched to that controller, no second one is created,
  and the session of no other connection changes.
\<close>

theorem one_controller_per_connection:
  assumes "sessions w key = Some session"
    and "pairSetupHandler session = None"
    and "NewSetupServerController p = (Some s0, err0)"
    and "conn_key rq = key"
    and "\<forall>rq'\<in>set rqs. conn_key rq' = key"
  shows "\<exists>w' s. serve_all p (rq # rqs) w = Served w' \<and>
           created w' = created w + 1 \<and>
           dispatched w' = dispatched w @ replicate (Suc (length rqs)) (key, created w) \<and>
           sessions w' = (sessions w)(key \<mapsto>
              session\<lparr>pairSetupHandler := Some \<lparr>ctrl_id = created w, ctrl_state = s\<rparr>\<rparr>)"
proof -
  obtain r s' where h: "HandleReaderForHandler p (Body rq) s0 = (r, s')"
    by (cases "HandleReaderForHandler p (Body rq) s0")
  let ?c = "\<lparr>ctrl_id = created w, ctrl_state = s'\<rparr>"
  let ?session = "session\<lparr>pairSetupHandler := Some ?c\<rparr>"
  let ?w = "w\<lparr>sessions := (sessions w)(key \<mapsto> ?session), created := created w + 1,
               dispatched := dispatched w @ [(key, created w)]\<rparr>"
  have step: "ServeHTTP p rq w =
      Served (finish \<lparr>status = 200, header = [(''Content-Type'', content_type p)], body = []\<rparr> r, ?w)"
    using ServeHTTP_first [of w rq session p s0 err0 r s'] assms(1-4) h by simp
  have "\<exists>w' s. serve_all p rqs ?w = Served w' \<and>
           created w' = created ?w \<and>
           dispatched w' = dispatched ?w @ replicate (length rqs) (key, ctrl_id ?c) \<and>
           sessions w' = (sessions ?w)(key \<mapsto> ?session\<lparr>pairSetupHandler := Some (?c\<lparr>ctrl_state := s\<rparr>)\<rparr>)"
    using assms(5) by (intro serve_all_stored) simp_all
  then obtain w' s where
    "serve_all p rqs ?w = Served w'" "created w' = created w + 1"
    "dispatched w' = dispatched w @ (key, created w) # replicate (length rqs) (key, created w)"
    "sessions w' = (sessions w)(key \<mapsto>
        session\<lparr>pairSetupHandler := Some \<lparr>ctrl_id = created w, ctrl_state = s\<rparr>\<rparr>)"
    by auto
  with step show ?thesis
    by (intro exI[of _ w'] exI[of _ s]) simp
qed

lemma serve_sample_requests:
  "serve_all sample_pair [M1_request, M3_request] sample_world =
     Served \<lparr>sessions = [1 \<mapsto> \<lparr>pairSetupHandler = Some \<lparr>ctrl_id = 0, ctrl_state = 2\<rparr>\<rparr>],
             created = 1, dispatched = [(1, 0), (1, 0)]\<rparr>"
  by (simp add: ServeHTTP_def Let_def sample_pair_def sample_Handle_def sample_world_def
                new_session_def M1_request_def M3_request_def numeral_2_eq_2)

theorem one_controller_per_connection_witness:
  "sessions sample_world 1 = Some new_session \<and> pairSetupHandler new_session = None \<and>
   NewSetupServerController sample_pair = (Some 0, None) \<and>
   conn_key M1_request = 1 \<and> conn_key M3_request = 1 \<and>
   serve_all sample_pair [M1_request, M3_request] sample_world =
     Served \<lparr>sessions = [1 \<mapsto> \<lparr>pairSetupHandler = Some \<lparr>ctrl_id = 0, ctrl_state = 2\<rparr>\<rparr>],
             created = 1, dispatched = [(1, 0), (1, 0)]\<rparr>"
proof -
  have a: "sessions sample_world 1 = Some new_session"
    and b: "pairSetupHandler new_session = None"
    and c: "NewSetupServerController sample_pair = (Some 0, None)"
    and d: "conn_key M1_request = 1"
    and e: "\<forall>rq'\<in>set [M3_request]. conn_key rq' = 1"
    by (simp_all add: sample_world_def new_session_def sample_pair_def M1_request_def
                      M3_request_def)
  from one_controller_per_connection [OF a b c d e] a b c d e serve_sample_requests
  show ?thesis by simp
qed

text \<open>
  Claim C10. When the pair-setup controller, the one stored in the session or the one
  just created for it, returns an error, the response has status 500, the pairing
  content type and an empty body, and the session still holds that controller, in the
  state the call left it in.
\<close>

theorem controller_error_gives_500:
  assumes "sessions w (conn_key rq) = Some session"
    and "pairSetupHandler session = Some c \<or>
         (pairSetupHandler session = None \<and> NewSetupServerController p = (Some s0, err0) \<and>
          c = \<lparr>ctrl_id = created w, ctrl_state = s0\<rparr>)"
    and "HandleReaderForHandler p (Body rq) (ctrl_state c) = (Inl e, s')"
  shows "\<exists>w'. ServeHTTP p rq w =
             Served (\<lparr>status = 500, header = [(''Content-Type'', content_type p)], body = []\<rparr>, w') \<and>
           sessions w' (conn_key rq) =
             Some (session\<lparr>pairSetupHandler := Some (c\<lparr>ctrl_state := s'\<rparr>)\<rparr>)"
  using assms(2)
proof
  assume "pairSetupHandler session = Some c"
  with assms(1,3) show ?thesis
    by (simp add: ServeHTTP_stored finish_def StatusInternalServerError_def)
next
  assume "pairSetupHandler session = None \<and> NewSetupServerController p = (Some s0, err0) \<and>
          c = \<lparr>ctrl_id = created w, ctrl_state = s0\<rparr>"
  with assms(1,3) show ?thesis
    by (simp add: ServeHTTP_first [of w rq session p s0 err0 "Inl e" s']
                  finish_def StatusInternalServerError_def)
qed

lemma serve_failing_request:
  "ServeHTTP failing_pair M3_request stored_world =
     Served (\<lparr>status = 500, header = [(''Content-Type'', ''application/pairing+tlv8'')], body = []\<rparr>,
             stored_world\<lparr>dispatched := [(1, 0), (1, 0)]\<rparr>)"
  by (simp add: ServeHTTP_def Let_def failing_pair_def sample_pair_def failing_Handle_def
                stored_world_def M3_request_def finish_def StatusInternalServerError_def)

theorem controller_error_gives_500_witness:
  "sessions stored_world (conn_key M3_request) =
     Some \<lparr>pairSetupHandler = Some \<lparr>ctrl_id = 0, ctrl_state = 1\<rparr>\<rparr> \<and>
   HandleReaderForHandler failing_pair (Body M3_request) 1 = (Inl (Error ''unexpected tlv''), 1) \<and>
   ServeHTTP failing_pair M3_request stored_world =
     Served (\<lparr>status = 500, header = [(''Content-Type'', ''application/pairing+tlv8'')], body = []\<rparr>,
             stored_world\<lparr>dispatched := [(1, 0), (1, 0)]\<rparr>) \<and>
   sessions (stored_world\<lparr>dispatched := [(1, 0), (1, 0)]\<rparr>) (conn_key M3_request) =
     Some \<lparr>pairSetupHandler = Some \<lparr>ctrl_id = 0, ctrl_state = 1\<rparr>\<rparr>"
proof -
  have a: "sessions stored_world (conn_key M3_request) =
             Some \<lparr>pairSetupHandler = Some \<lparr>ctrl_id = 0, ctrl_state = 1\<rparr>\<rparr>"
    by (simp add: stored_world_def M3_request_def)
  have b: "pairSetupHandler \<lparr>pairSetupHandler = Some \<lparr>ctrl_id = 0, ctrl_state = 1::nat\<rparr>\<rparr> =
             Some \<lparr>ctrl_id = 0, ctrl_state = 1\<rparr> \<or>
           (pairSetupHandler \<lparr>pairSetupHandler = Some \<lparr>ctrl_id = 0, ctrl_state = 1::nat\<rparr>\<rparr> = None \<and>
            NewSetupServerController failing_pair = (Some 0, None) \<and>
            \<lparr>ctrl_id = 0, ctrl_state = 1\<rparr> = \<lparr>ctrl_id = created stored_world, ctrl_state = 0\<rparr>)"
    by simp
  have c: "HandleReaderForHandler failing_pair (Body M3_request)
             (ctrl_state \<lparr>ctrl_id = 0, ctrl_state = 1::nat\<rparr>) = (Inl (Error ''unexpected tlv''), 1)"
    by (simp add: failing_pair_def sample_pair_def failing_Handle_def)
  from controller_error_gives_500 [OF a b c] a c serve_failing_request show ?thesis
    by simp
qed

end
